theory Spec2Isabelle
  imports Complex_Main
begin

text \<open>
  A shallow embedding of the collection pipeline: the record normalizer, the primary and
  the fallback collector and the rate-limit handler of \<open>TwitterPipeline\<close>, its merge engine
  with the command-line entry of the merge script, and the analytics snapshot of
  \<open>DataOrganizer\<close>. Asynchronous calls are run to their result; what the outside world
  delivers (the search sequence, the clock, the page, \<open>Math.random\<close>, the files read) is a
  parameter of the function that consumes it.
\<close>

section \<open>JavaScript values used by the pipeline\<close>

text \<open>
  Timestamps, engagement counts and \<open>Date\<close> time values are integral in every record the
  pipeline handles (epoch seconds or milliseconds, counters). A JavaScript number is modelled
  as an integer or \<open>NaN\<close>; \<open>undefined\<close>/\<open>null\<close> is \<open>None\<close>. The scaling by 1000 is only
  applied below \<open>10^12\<close>, where it is exact on doubles as well.
\<close>

datatype jsnum = Num int | NaN

fun isNaN :: "jsnum \<Rightarrow> bool" where
  "isNaN NaN = True"
| "isNaN (Num n) = False"

text \<open>Relational comparison: false as soon as one side is \<open>NaN\<close>.\<close>

fun js_lt :: "jsnum \<Rightarrow> jsnum \<Rightarrow> bool" where
  "js_lt (Num a) (Num b) = (a < b)"
| "js_lt a b = False"

fun js_le :: "jsnum \<Rightarrow> jsnum \<Rightarrow> bool" where
  "js_le (Num a) (Num b) = (a \<le> b)"
| "js_le a b = False"

fun js_gt :: "jsnum \<Rightarrow> jsnum \<Rightarrow> bool" where
  "js_gt (Num a) (Num b) = (b < a)"
| "js_gt a b = False"

fun js_ge :: "jsnum \<Rightarrow> jsnum \<Rightarrow> bool" where
  "js_ge (Num a) (Num b) = (b \<le> a)"
| "js_ge a b = False"

fun js_times :: "jsnum \<Rightarrow> int \<Rightarrow> jsnum" where
  "js_times (Num a) k = Num (a * k)"
| "js_times NaN k = NaN"

text \<open>Truthiness of a possibly missing string (\<open>!s\<close> is its negation): the empty string is falsy.\<close>

definition truthy_str :: "string option \<Rightarrow> bool" where
  "truthy_str s = (case s of None \<Rightarrow> False | Some v \<Rightarrow> v \<noteq> [])"

text \<open>Truthiness of a possibly missing number: \<open>0\<close> and \<open>NaN\<close> are falsy.\<close>

definition truthy_num :: "jsnum option \<Rightarrow> bool" where
  "truthy_num x = (case x of None \<Rightarrow> False | Some NaN \<Rightarrow> False | Some (Num n) \<Rightarrow> n \<noteq> 0)"

text \<open>
  \<open>new Date(t)\<close>, as the time value of the resulting object: a time value beyond
  \<open>8.64e15\<close> milliseconds from the epoch is clipped to \<open>NaN\<close> (an Invalid Date).
\<close>

definition new_Date :: "jsnum \<Rightarrow> jsnum" where
  "new_Date x = (case x of NaN \<Rightarrow> NaN
                 | Num t \<Rightarrow> if \<bar>t\<bar> \<le> 8640000000000000 then Num t else NaN)"

text \<open>\<open>new Date(v)\<close> of a stored timestamp: \<open>null\<close> converts to the epoch.\<close>

definition new_Date_of :: "int option \<Rightarrow> jsnum" where
  "new_Date_of v = (case v of None \<Rightarrow> Num 0 | Some t \<Rightarrow> new_Date (Num t))"

section \<open>Insertion-ordered \<open>Map\<close>\<close>

text \<open>
  A JavaScript \<open>Map\<close> keeps its keys in insertion order; \<open>set\<close> on a present key
  replaces the value in place. It is an association list with unique keys.
\<close>

fun map_has :: "'k \<Rightarrow> ('k \<times> 'v) list \<Rightarrow> bool" where
  "map_has k [] = False"
| "map_has k ((k', v') # m) = (k = k' \<or> map_has k m)"

fun map_set :: "'k \<Rightarrow> 'v \<Rightarrow> ('k \<times> 'v) list \<Rightarrow> ('k \<times> 'v) list" where
  "map_set k v [] = [(k, v)]"
| "map_set k v ((k', v') # m) = (if k = k' then (k, v) # m else (k', v') # map_set k v m)"

definition map_values :: "('k \<times> 'v) list \<Rightarrow> 'v list" where
  "map_values m = map snd m"

section \<open>Records of the pipeline\<close>

text \<open>The raw record delivered by the search capability: every field may be missing.
  \<open>raw_timeParsed\<close> is the \<open>Date\<close> object, given by what its \<open>getTime()\<close> returns.\<close>

record raw_tweet =
  raw_id :: "string option"
  raw_text :: "string option"
  raw_username :: "string option"
  raw_timestamp :: "jsnum option"
  raw_timeParsed :: "jsnum option"
  raw_isReply :: "bool option"
  raw_isRetweet :: "bool option"
  raw_likes :: "int option"
  raw_retweets :: "int option"
  raw_replies :: "int option"
  raw_photos :: "string list option"
  raw_videos :: "string list option"
  raw_urls :: "string list option"
  raw_permanentUrl :: "string option"
  raw_quotedStatusId :: "string option"
  raw_inReplyToStatusId :: "string option"
  raw_hashtags :: "string list option"

text \<open>The canonical tweet object built by \<open>processTweetData\<close>, stored in \<open>tweets.json\<close> and
  read back by the analytics and the merge. A stored \<open>timestamp\<close> may be \<open>null\<close>.\<close>

record tweet =
  tw_id :: string
  tw_text :: "string option"
  tw_username :: string
  tw_timestamp :: "int option"
  tw_createdAt :: string
  tw_isReply :: bool
  tw_isRetweet :: bool
  tw_likes :: int
  tw_retweetCount :: int
  tw_replies :: int
  tw_photos :: "string list"
  tw_videos :: "string list"
  tw_urls :: "string list"
  tw_permanentUrl :: "string option"
  tw_quotedStatusId :: "string option"
  tw_inReplyToStatusId :: "string option"
  tw_hashtags :: "string list"

text \<open>\<open>this.stats\<close> of \<open>TwitterPipeline\<close>; the two dates are \<open>null\<close> or a \<open>Date\<close> (its time value).\<close>

record stats =
  requestCount :: nat
  rateLimitHits :: nat
  retriesCount :: nat
  uniqueTweets :: nat
  fallbackCount :: nat
  oldestTweetDate :: "jsnum option"
  newestTweetDate :: "jsnum option"
  fallbackUsed :: bool

section \<open>Record normalizer: \<open>processTweetData\<close>\<close>

text \<open>\<open>x || d\<close> and \<open>Boolean(x)\<close> on optional fields.\<close>

definition or_int :: "int option \<Rightarrow> int \<Rightarrow> int" where
  "or_int x d = (case x of None \<Rightarrow> d | Some n \<Rightarrow> if n = 0 then d else n)"

definition or_list :: "'a list option \<Rightarrow> 'a list \<Rightarrow> 'a list" where
  "or_list x d = (case x of None \<Rightarrow> d | Some l \<Rightarrow> l)"

definition Boolean :: "bool option \<Rightarrow> bool" where
  "Boolean x = (case x of None \<Rightarrow> False | Some b \<Rightarrow> b)"

text \<open>Lines 335-338: the explicit timestamp if truthy, else \<open>timeParsed?.getTime()\<close>.\<close>

definition resolve_timestamp :: "raw_tweet \<Rightarrow> jsnum option" where
  "resolve_timestamp tweet =
     (if truthy_num (raw_timestamp tweet) then raw_timestamp tweet else raw_timeParsed tweet)"

text \<open>Line 342: \<open>if (timestamp < 1e12) timestamp *= 1000\<close>.\<close>

definition scale_timestamp :: "jsnum \<Rightarrow> jsnum" where
  "scale_timestamp t = (if js_lt t (Num (10 ^ 12)) then js_times t 1000 else t)"

text \<open>Lines 349-361: the oldest/newest bounds of the run.\<close>

definition update_oldest :: "jsnum \<Rightarrow> stats \<Rightarrow> stats" where
  "update_oldest tweetDate st =
     (case oldestTweetDate st of
        None \<Rightarrow> st\<lparr>oldestTweetDate := Some tweetDate\<rparr>
      | Some d \<Rightarrow> if js_lt tweetDate d then st\<lparr>oldestTweetDate := Some tweetDate\<rparr> else st)"

definition update_newest :: "jsnum \<Rightarrow> stats \<Rightarrow> stats" where
  "update_newest tweetDate st =
     (case newestTweetDate st of
        None \<Rightarrow> st\<lparr>newestTweetDate := Some tweetDate\<rparr>
      | Some d \<Rightarrow> if js_gt tweetDate d then st\<lparr>newestTweetDate := Some tweetDate\<rparr> else st)"

text \<open>
  \<open>processTweetData(tweet)\<close>. The result is \<open>None\<close> for \<open>null\<close>. The parameters are
  \<open>Date.prototype.toISOString\<close> on a valid time value, \<open>this.username\<close> and \<open>this.stats\<close>;
  the updated statistics are returned with the result. \<open>toISOString\<close> raises a \<open>RangeError\<close>
  on an Invalid Date, which the \<open>catch\<close> turns into \<open>null\<close> after the bounds were updated.
\<close>

definition processTweetData ::
  "(int \<Rightarrow> string) \<Rightarrow> string \<Rightarrow> stats \<Rightarrow> raw_tweet option \<Rightarrow> stats \<times> tweet option" where
  "processTweetData toISOString username st tw =
     (case tw of
        None \<Rightarrow> (st, None)
      | Some tweet \<Rightarrow>
          (case raw_id tweet of
             None \<Rightarrow> (st, None)
           | Some ident \<Rightarrow>
               if ident = [] then (st, None)
               else
                 (case resolve_timestamp tweet of
                    None \<Rightarrow> (st, None)
                  | Some t0 \<Rightarrow>
                      if truthy_num (Some t0) then
                        (let timestamp = scale_timestamp t0 in
                         if isNaN timestamp \<or> js_le timestamp (Num 0) then (st, None)
                         else
                           (let tweetDate = new_Date timestamp;
                                st' = update_newest tweetDate (update_oldest tweetDate st)
                            in case tweetDate of
                                 NaN \<Rightarrow> (st', None)
                               | Num ms \<Rightarrow>
                                   (st', Some \<lparr>
                                      tw_id = ident,
                                      tw_text = raw_text tweet,
                                      tw_username =
                                        (if truthy_str (raw_username tweet)
                                         then or_list (raw_username tweet) username
                                         else username),
                                      tw_timestamp = Some ms,
                                      tw_createdAt = toISOString ms,
                                      tw_isReply = Boolean (raw_isReply tweet),
                                      tw_isRetweet = Boolean (raw_isRetweet tweet),
                                      tw_likes = or_int (raw_likes tweet) 0,
                                      tw_retweetCount = or_int (raw_retweets tweet) 0,
                                      tw_replies = or_int (raw_replies tweet) 0,
                                      tw_photos = or_list (raw_photos tweet) [],
                                      tw_videos = or_list (raw_videos tweet) [],
                                      tw_urls = or_list (raw_urls tweet) [],
                                      tw_permanentUrl = raw_permanentUrl tweet,
                                      tw_quotedStatusId = raw_quotedStatusId tweet,
                                      tw_inReplyToStatusId = raw_inReplyToStatusId tweet,
                                      tw_hashtags = or_list (raw_hashtags tweet) []\<rparr>)))
                      else (st, None))))"

section \<open>Primary collector: \<open>collectTweets\<close>\<close>

text \<open>One step of the lazy sequence returned by \<open>searchTweets\<close>: it yields a record
  (possibly \<open>null\<close>) or raises (a rate limit, a network failure).\<close>

datatype seq_event = Yield "raw_tweet option" | Throw

text \<open>The command-line options \<open>--start-date\<close> and \<open>--end-date\<close>: absent (or empty), or
  the time value of \<open>new Date(option)\<close>, \<open>NaN\<close> when the text is not a date.\<close>

record cli_options =
  startDate :: "jsnum option"
  endDate :: "jsnum option"

text \<open>The date filter of lines 526-533: does the processed tweet enter the map?\<close>

definition date_filter :: "cli_options \<Rightarrow> tweet \<Rightarrow> bool" where
  "date_filter opts processedTweet =
     (let tweetDate = new_Date_of (tw_timestamp processedTweet)
      in case (startDate opts, endDate opts) of
           (Some s, Some e) \<Rightarrow> js_ge tweetDate s \<and> js_le tweetDate e
         | _ \<Rightarrow> True)"

text \<open>
  The \<open>for await\<close> loop of lines 520-538 over the events of the sequence, on the pair of
  \<open>this.stats\<close> and the map \<open>allTweets\<close> (keyed by the raw record's \<open>id\<close>). The loop ends
  when the sequence is exhausted or raises (the \<open>catch\<close> of line 539 is empty).
\<close>

fun collect_loop ::
  "(int \<Rightarrow> string) \<Rightarrow> string \<Rightarrow> cli_options \<Rightarrow> seq_event list \<Rightarrow>
   stats \<times> (string option \<times> tweet) list \<Rightarrow> stats \<times> (string option \<times> tweet) list" where
  "collect_loop toISO u opts [] acc = acc"
| "collect_loop toISO u opts (Throw # rest) acc = acc"
| "collect_loop toISO u opts (Yield None # rest) acc = collect_loop toISO u opts rest acc"
| "collect_loop toISO u opts (Yield (Some tweet) # rest) (st, allTweets) =
     (if map_has (raw_id tweet) allTweets then collect_loop toISO u opts rest (st, allTweets)
      else
        (case processTweetData toISO u st (Some tweet) of
           (st', None) \<Rightarrow> collect_loop toISO u opts rest (st', allTweets)
         | (st', Some processedTweet) \<Rightarrow>
             if date_filter opts processedTweet
             then collect_loop toISO u opts rest
                    (st', map_set (raw_id tweet) processedTweet allTweets)
             else collect_loop toISO u opts rest (st', allTweets)))"

datatype error = ProfileError | NoValidDates | TypeError | RangeError | UsageError

text \<open>
  \<open>collectTweets(scraper)\<close>: \<open>profile\<close> is the \<open>tweetsCount\<close> of \<open>scraper.getProfile\<close>, \<open>None\<close>
  when that call (or the logging of the count) raises, which \<open>collectTweets\<close> rethrows.
  Otherwise it returns the statistics and \<open>Array.from(allTweets.values())\<close>.
\<close>

definition collectTweets ::
  "(int \<Rightarrow> string) \<Rightarrow> string \<Rightarrow> cli_options \<Rightarrow> nat option \<Rightarrow> stats \<Rightarrow> seq_event list \<Rightarrow>
   error + (stats \<times> tweet list)" where
  "collectTweets toISO u opts profile st searchResults =
     (case profile of
        None \<Rightarrow> Inl ProfileError
      | Some totalExpectedTweets \<Rightarrow>
          (case collect_loop toISO u opts searchResults (st, []) of
             (st', allTweets) \<Rightarrow> Inr (st', map_values allTweets)))"

section \<open>Rate-limit controller: \<open>handleRateLimit\<close>\<close>

text \<open>The two delay bounds of \<open>this.config.twitter\<close> that \<open>randomDelay\<close> falls back to.\<close>

record twitter_config =
  minDelayBetweenRequests :: real
  maxDelayBetweenRequests :: real

text \<open>\<open>min || fallback\<close> on a possibly missing delay: \<open>null\<close> and \<open>0\<close> are falsy.\<close>

definition or_real :: "real option \<Rightarrow> real \<Rightarrow> real" where
  "or_real x d = (case x of None \<Rightarrow> d | Some v \<Rightarrow> if v = 0 then d else v)"

text \<open>
  \<open>randomDelay(min, max)\<close> (the later of the two methods of that name, lines 297-310, which
  is the one the class keeps). \<open>rs\<close> are the values \<open>Math.random()\<close> returns; the result
  is the number of milliseconds waited. Delays are reals: rounding of doubles is not
  represented.
\<close>

definition randomDelay :: "twitter_config \<Rightarrow> real option \<Rightarrow> real option \<Rightarrow> real list \<Rightarrow> int" where
  "randomDelay cfg mn mx rs =
     (let minDelay = or_real mn (minDelayBetweenRequests cfg);
          maxDelay = or_real mx (maxDelayBetweenRequests cfg);
          gaussianRand = sum_list (take 6 rs) / 6
      in \<lfloor>minDelay + gaussianRand * (maxDelay - minDelay)\<rfloor>)"

text \<open>
  \<open>handleRateLimit(retryCount)\<close>: \<open>rnd\<close> is the value of \<open>Math.random()\<close> drawn for the
  jitter, \<open>rs\<close> the six drawn by \<open>randomDelay\<close>. Returns the updated statistics, the computed
  \<open>delay\<close> and the milliseconds actually waited.
\<close>

definition handleRateLimit ::
  "twitter_config \<Rightarrow> stats \<Rightarrow> int \<Rightarrow> real \<Rightarrow> real list \<Rightarrow> stats \<times> real \<times> int" where
  "handleRateLimit cfg st retryCount rnd rs =
     (let st' = st\<lparr>rateLimitHits := rateLimitHits st + 1\<rparr>;
          baseDelay = 60000;
          maxDelay = 15 * 60 * 1000;
          exponentialDelay = baseDelay * power_int 2 (retryCount - 1);
          jitter = rnd * 0.1 * exponentialDelay;
          delay = min (exponentialDelay + jitter) maxDelay
      in (st', delay, randomDelay cfg (Some delay) (Some (delay * 1.1)) rs))"

section \<open>Fallback collector: the scroll/scrape loop of \<open>collectWithFallback\<close>\<close>

text \<open>What \<open>page.evaluate\<close> builds for one \<open>article\<close> element (lines 446-455).\<close>

record scraped =
  sc_id :: "string option"
  sc_text :: string
  sc_timestamp :: "string option"
  sc_metrics :: "string list"

text \<open>
  A member of the JavaScript \<open>Set\<close> \<open>tweets\<close>: a string, or an object. Objects are compared
  by identity, so an object carries the number of its allocation; every object returned by
  \<open>page.evaluate\<close> is a fresh one.
\<close>

datatype set_member = MStr string | MObj nat scraped

definition set_has :: "set_member \<Rightarrow> set_member list \<Rightarrow> bool" where
  "set_has x s = (x \<in> set s)"

definition set_add :: "set_member \<Rightarrow> set_member list \<Rightarrow> set_member list" where
  "set_add x s = (if x \<in> set s then s else s @ [x])"

text \<open>One pass of the \<open>while\<close> loop observes the clock and the visible elements; an element
  is \<open>None\<close> when its \<open>map\<close> callback raised and returned \<open>null\<close>.\<close>

record cycle =
  now :: int
  visible :: "scraped option list"

record fb_state =
  tweets :: "set_member list"
  next_ref :: nat
  fb_stats :: stats
  lastTweetCount :: nat
  unchangedCount :: nat

text \<open>Line 460: \<open>.filter((t) => t && t.id)\<close>.\<close>

definition scrape_filter :: "scraped option list \<Rightarrow> scraped list" where
  "scrape_filter els =
     concat (map (\<lambda>e. case e of None \<Rightarrow> [] | Some t \<Rightarrow> if truthy_str (sc_id t) then [t] else []) els)"

text \<open>Lines 463-468: \<open>if (!tweets.has(tweet.id)) { tweets.add(tweet); fallbackCount++ }\<close>.\<close>

fun add_scraped :: "scraped list \<Rightarrow> fb_state \<Rightarrow> fb_state" where
  "add_scraped [] s = s"
| "add_scraped (tweet # rest) s =
     (let obj = MObj (next_ref s) tweet;
          s1 = s\<lparr>next_ref := next_ref s + 1\<rparr>
      in if set_has (MStr (or_list (sc_id tweet) [])) (tweets s1) then add_scraped rest s1
         else add_scraped rest
                (s1\<lparr>tweets := set_add obj (tweets s1),
                    fb_stats := (fb_stats s1)\<lparr>fallbackCount := fallbackCount (fb_stats s1) + 1\<rparr>\<rparr>))"

text \<open>Lines 433-475: the body of the loop.\<close>

definition cycle_body :: "cycle \<Rightarrow> fb_state \<Rightarrow> fb_state" where
  "cycle_body c s =
     (let s1 = add_scraped (scrape_filter (visible c)) s
      in if length (tweets s1) = lastTweetCount s1
         then s1\<lparr>unchangedCount := unchangedCount s1 + 1\<rparr>
         else s1\<lparr>unchangedCount := 0, lastTweetCount := length (tweets s1)\<rparr>)"

text \<open>Lines 429-476: the loop over the passes the page offers; it stops at the first pass
  whose guard fails.\<close>

fun fallback_loop :: "int \<Rightarrow> int \<Rightarrow> cycle list \<Rightarrow> fb_state \<Rightarrow> fb_state" where
  "fallback_loop sessionStartTime sessionDuration [] s = s"
| "fallback_loop sessionStartTime sessionDuration (c # cs) s =
     (if unchangedCount s < 3 \<and> now c - sessionStartTime < sessionDuration
      then fallback_loop sessionStartTime sessionDuration cs (cycle_body c s)
      else s)"

text \<open>The task of \<open>collectWithFallback\<close> from the empty \<open>Set\<close>, and \<open>Array.from(tweets)\<close>.\<close>

definition fallbackTask :: "stats \<Rightarrow> int \<Rightarrow> int \<Rightarrow> cycle list \<Rightarrow> fb_state" where
  "fallbackTask st sessionStartTime sessionDuration cycles =
     fallback_loop sessionStartTime sessionDuration cycles
       \<lparr>tweets = [], next_ref = 0, fb_stats = st, lastTweetCount = 0, unchangedCount = 0\<rparr>"

definition scraped_of :: "set_member list \<Rightarrow> scraped list" where
  "scraped_of s = concat (map (\<lambda>m. case m of MStr v \<Rightarrow> [] | MObj r t \<Rightarrow> [t]) s)"

section \<open>\<open>Array.prototype.sort\<close> with a comparator\<close>

text \<open>
  The comparator returns a number; \<open>sort\<close> reads \<open>NaN\<close> as \<open>0\<close>. The sort is stable: it
  is insertion sort, where \<open>x\<close> stays in front of \<open>y\<close> when \<open>cmp x y \<le> 0\<close>.
\<close>

definition cmp_le0 :: "jsnum \<Rightarrow> bool" where
  "cmp_le0 v = (case v of NaN \<Rightarrow> True | Num d \<Rightarrow> d \<le> 0)"

fun insort_cmp :: "('a \<Rightarrow> 'a \<Rightarrow> jsnum) \<Rightarrow> 'a \<Rightarrow> 'a list \<Rightarrow> 'a list" where
  "insort_cmp cmp x [] = [x]"
| "insort_cmp cmp x (y # ys) =
     (if cmp_le0 (cmp x y) then x # y # ys else y # insort_cmp cmp x ys)"

definition js_sort :: "('a \<Rightarrow> 'a \<Rightarrow> jsnum) \<Rightarrow> 'a list \<Rightarrow> 'a list" where
  "js_sort cmp xs = foldr (insort_cmp cmp) xs []"

text \<open>Subtraction of two numbers (or of two \<open>Date\<close>s, by their time values).\<close>

fun js_minus :: "jsnum \<Rightarrow> jsnum \<Rightarrow> jsnum" where
  "js_minus (Num a) (Num b) = Num (a - b)"
| "js_minus a b = NaN"

section \<open>Merge engine: \<open>createMergedCharacter\<close>\<close>

text \<open>The \<open>options\<close> argument; a missing property takes the default of lines 846-850.\<close>

record merge_options =
  opt_tweetsPerAccount :: "nat option"
  opt_filterRetweets :: "bool option"
  opt_sortBy :: "string option"

definition tweetsPerAccount :: "merge_options \<Rightarrow> nat" where
  "tweetsPerAccount options = (case opt_tweetsPerAccount options of None \<Rightarrow> 50 | Some k \<Rightarrow> k)"

definition filterRetweets :: "merge_options \<Rightarrow> bool" where
  "filterRetweets options = (case opt_filterRetweets options of None \<Rightarrow> True | Some b \<Rightarrow> b)"

definition sortBy :: "merge_options \<Rightarrow> string" where
  "sortBy options = (case opt_sortBy options of None \<Rightarrow> ''total'' | Some v \<Rightarrow> v)"

text \<open>The comparator of lines 887-899.\<close>

definition merge_compare :: "string \<Rightarrow> tweet \<Rightarrow> tweet \<Rightarrow> jsnum" where
  "merge_compare sort_by a b =
     (if sort_by = ''likes'' then Num (tw_likes b - tw_likes a)
      else if sort_by = ''retweets'' then Num (tw_retweetCount b - tw_retweetCount a)
      else if sort_by = ''date''
        then js_minus (new_Date_of (tw_timestamp b)) (new_Date_of (tw_timestamp a))
      else Num ((tw_likes b + tw_retweetCount b) - (tw_likes a + tw_retweetCount a)))"

text \<open>Lines 881-885: the tweets of one account that stay after the optional retweet filter.\<close>

definition filter_tweets :: "merge_options \<Rightarrow> tweet list \<Rightarrow> tweet list" where
  "filter_tweets options accountTweets =
     (if filterRetweets options then filter (\<lambda>tweet. \<not> tw_isRetweet tweet) accountTweets
      else accountTweets)"

text \<open>Lines 887-901: sort and cut one account's tweets. The cap is a count of tweets, a
  natural number.\<close>

definition select_top :: "merge_options \<Rightarrow> tweet list \<Rightarrow> tweet list" where
  "select_top options accountTweets =
     (let filteredTweets = filter_tweets options accountTweets;
          sortedTweets = js_sort (merge_compare (sortBy options)) filteredTweets
      in take (tweetsPerAccount options) sortedTweets)"

record merged_stats =
  ms_totalTweets :: nat
  ms_accountBreakdown :: "(string \<times> nat) list"
  ms_oldest :: "jsnum option"
  ms_newest :: "jsnum option"

fun map_get :: "'k \<Rightarrow> ('k \<times> 'v) list \<Rightarrow> 'v option" where
  "map_get k [] = None"
| "map_get k ((k', v') # m) = (if k = k' then Some v' else map_get k m)"

text \<open>Lines 904-916: the \<open>forEach\<close> over the selected tweets of one account.\<close>

fun add_top ::
  "string \<Rightarrow> tweet list \<Rightarrow> (string \<times> tweet) list \<times> merged_stats \<Rightarrow>
   (string \<times> tweet) list \<times> merged_stats" where
  "add_top account [] acc = acc"
| "add_top account (tweet # rest) (mergedTweets, mergedStats) =
     (let tweetDate = new_Date_of (tw_timestamp tweet);
          n = (case map_get account (ms_accountBreakdown mergedStats) of
                 None \<Rightarrow> 0 | Some c \<Rightarrow> c);
          st1 = mergedStats\<lparr>ms_totalTweets := ms_totalTweets mergedStats + 1,
                  ms_accountBreakdown := map_set account (n + 1) (ms_accountBreakdown mergedStats)\<rparr>;
          st2 = (case ms_oldest st1 of
                   None \<Rightarrow> st1\<lparr>ms_oldest := Some tweetDate\<rparr>
                 | Some d \<Rightarrow> if js_lt tweetDate d then st1\<lparr>ms_oldest := Some tweetDate\<rparr> else st1);
          st3 = (case ms_newest st2 of
                   None \<Rightarrow> st2\<lparr>ms_newest := Some tweetDate\<rparr>
                 | Some d \<Rightarrow> if js_gt tweetDate d then st2\<lparr>ms_newest := Some tweetDate\<rparr> else st2)
      in add_top account rest (map_set (tw_id tweet) tweet mergedTweets, st3))"

text \<open>Lines 874-920: the loop over the source accounts. \<open>load account\<close> is what
  \<open>getTweetsForAccount\<close> returns (the empty list when the files cannot be read).\<close>

fun merge_accounts ::
  "(string \<Rightarrow> tweet list) \<Rightarrow> merge_options \<Rightarrow> string list \<Rightarrow>
   (string \<times> tweet) list \<times> merged_stats \<Rightarrow> (string \<times> tweet) list \<times> merged_stats" where
  "merge_accounts load options [] acc = acc"
| "merge_accounts load options (account # rest) acc =
     merge_accounts load options rest (add_top account (select_top options (load account)) acc)"

text \<open>
  \<open>createMergedCharacter(sourceAccounts, options)\<close> up to the merged array and the merge
  statistics it writes; \<open>latest account\<close> is what \<open>getLatestDateForAccount\<close> returns. The
  file writes that follow are not modelled.
\<close>

definition createMergedCharacter ::
  "(string \<Rightarrow> tweet list) \<Rightarrow> (string \<Rightarrow> string option) \<Rightarrow> string list \<Rightarrow> merge_options \<Rightarrow>
   error + (tweet list \<times> merged_stats)" where
  "createMergedCharacter load latest sourceAccounts options =
     (if concat (map (\<lambda>a. case latest a of None \<Rightarrow> [] | Some d \<Rightarrow> [d]) sourceAccounts) = []
      then Inl NoValidDates
      else
        (case merge_accounts load options sourceAccounts
                ([], \<lparr>ms_totalTweets = 0, ms_accountBreakdown = [],
                      ms_oldest = None, ms_newest = None\<rparr>) of
           (mergedTweets, mergedStats) \<Rightarrow> Inr (map_values mergedTweets, mergedStats)))"


subsection \<open>The command-line entry \<open>main\<close> of the merge script\<close>

text \<open>The answers of \<open>promptForMergeOptions\<close>.\<close>

record merge_answers =
  ans_tweetsPerAccount :: nat
  ans_excludeRetweets :: bool
  ans_rankingMethod :: string

text \<open>Lines 39-76 of the merge script: the usage check and the call of
  \<open>createMergedCharacter\<close> with the options built from the answers.\<close>

definition main_options :: "merge_answers \<Rightarrow> merge_options" where
  "main_options answers =
     \<lparr>opt_tweetsPerAccount = Some (ans_tweetsPerAccount answers),
      opt_filterRetweets = Some (\<not> ans_excludeRetweets answers),
      opt_sortBy = Some (ans_rankingMethod answers)\<rparr>"

definition main_merge ::
  "(string \<Rightarrow> tweet list) \<Rightarrow> (string \<Rightarrow> string option) \<Rightarrow> string option \<Rightarrow> string \<Rightarrow> string \<Rightarrow>
   merge_answers \<Rightarrow> error + (tweet list \<times> merged_stats)" where
  "main_merge load latest newCharacter character1 character2 answers =
     (let sourceAccounts = [character1, character2]
      in if truthy_str newCharacter \<and> 2 \<le> length sourceAccounts
         then createMergedCharacter load latest sourceAccounts (main_options answers)
         else Inl UsageError)"

section \<open>Analytics snapshot: \<open>DataOrganizer.generateAnalytics\<close>\<close>

definition digit_char :: "nat \<Rightarrow> char" where
  "digit_char d = ''0123456789'' ! (d mod 10)"

function string_of_nat :: "nat \<Rightarrow> string" where
  "string_of_nat n =
     (if n < 10 then [digit_char n] else string_of_nat (n div 10) @ [digit_char (n mod 10)])"
  by pat_completeness auto
termination
  by (relation "measure (\<lambda>n. n)") auto

text \<open>
  \<open>(tot / cnt).toFixed(2)\<close> for an integer total \<open>tot\<close> and a length \<open>cnt\<close>: \<open>0 / 0\<close> is \<open>NaN\<close>,
  which prints as \<open>NaN\<close>; otherwise the quotient is rounded to hundredths, half up in
  magnitude. The rounding is that of the exact quotient (the rounding of the double is not
  represented), and the exponent notation of values from \<open>1e21\<close> on is not modelled.
\<close>

definition toFixed2_div :: "int \<Rightarrow> nat \<Rightarrow> string" where
  "toFixed2_div tot cnt =
     (if cnt = 0
      then (if tot = 0 then ''NaN'' else if 0 < tot then ''Infinity'' else ''-Infinity'')
      else
        (let n = nat ((200 * \<bar>tot\<bar> + int cnt) div (2 * int cnt))
         in (if tot < 0 then ''-'' else []) @ string_of_nat (n div 100) @ ''.'' @
            [digit_char (n mod 100 div 10), digit_char (n mod 10)]))"

record top_tweet =
  tt_id :: string
  tt_text :: string
  tt_likes :: int
  tt_retweetCount :: int
  tt_url :: "string option"

record engagement =
  totalLikes :: int
  totalRetweetCount :: int
  totalReplies :: int
  averageLikes :: string
  topTweets :: "top_tweet list"

record time_range =
  tr_start :: string
  tr_end :: string

record content_types =
  withImages :: nat
  withVideos :: nat
  withLinks :: nat
  textOnly :: nat

record analytics =
  totalTweets :: nat
  directTweets :: nat
  replies :: nat
  retweets :: nat
  engagement :: engagement
  timeRange :: time_range
  contentTypes :: content_types

text \<open>Lines 222-228: one entry of \<open>topTweets\<close>; \<open>t.text.slice\<close> raises a \<open>TypeError\<close> when
  the tweet has no text.\<close>

fun top_entries :: "tweet list \<Rightarrow> error + top_tweet list" where
  "top_entries [] = Inr []"
| "top_entries (t # ts) =
     (case tw_text t of
        None \<Rightarrow> Inl TypeError
      | Some txt \<Rightarrow>
          (case top_entries ts of
             Inl e \<Rightarrow> Inl e
           | Inr es \<Rightarrow>
               Inr (\<lparr>tt_id = tw_id t, tt_text = take 100 txt, tt_likes = tw_likes t,
                      tt_retweetCount = tw_retweetCount t, tt_url = tw_permanentUrl t\<rparr> # es)))"

text \<open>Lines 230-237: one bound of \<open>timeRange\<close>. \<open>fmt\<close> is \<open>format(_, 'yyyy-MM-dd')\<close> of
  date-fns on a valid time value; it raises a \<open>RangeError\<close> on an Invalid Date.\<close>

definition format_bound :: "(int \<Rightarrow> string) \<Rightarrow> int option \<Rightarrow> error + string" where
  "format_bound fmt d =
     (case d of
        None \<Rightarrow> Inr ''N/A''
      | Some v \<Rightarrow> (case new_Date (Num v) of NaN \<Rightarrow> Inl RangeError | Num ms \<Rightarrow> Inr (fmt ms)))"

definition first_of :: "'a list \<Rightarrow> 'a option" where
  "first_of xs = (case xs of [] \<Rightarrow> None | x # _ \<Rightarrow> Some x)"

definition last_of :: "'a list \<Rightarrow> 'a option" where
  "last_of xs = (case xs of [] \<Rightarrow> None | _ # _ \<Rightarrow> Some (last xs))"

text \<open>\<open>generateAnalytics(tweets)\<close>, lines 154-247.\<close>

definition generateAnalytics :: "(int \<Rightarrow> string) \<Rightarrow> tweet list \<Rightarrow> error + analytics" where
  "generateAnalytics fmt tws =
     (if length tws = 0 then
        Inr \<lparr>totalTweets = 0, directTweets = 0, replies = 0, retweets = 0,
             engagement = \<lparr>totalLikes = 0, totalRetweetCount = 0, totalReplies = 0,
                            averageLikes = ''0.00'', topTweets = []\<rparr>,
             timeRange = \<lparr>tr_start = ''N/A'', tr_end = ''N/A''\<rparr>,
             contentTypes = \<lparr>withImages = 0, withVideos = 0, withLinks = 0, textOnly = 0\<rparr>\<rparr>
      else
        (let validTweets = filter (\<lambda>t. tw_timestamp t \<noteq> None) tws;
             validDates =
               js_sort (\<lambda>a b. Num (a - b))
                 (concat (map (\<lambda>t. case tw_timestamp t of None \<Rightarrow> [] | Some v \<Rightarrow> [v]) validTweets));
             tweetsForEngagement = filter (\<lambda>t. \<not> tw_isRetweet t) tws
         in case top_entries
                   (take 5 (js_sort (\<lambda>a b. Num (or_int (Some (tw_likes b)) 0 - or_int (Some (tw_likes a)) 0))
                              tweetsForEngagement)) of
              Inl e \<Rightarrow> Inl e
            | Inr tops \<Rightarrow>
                (case format_bound fmt (first_of validDates) of
                   Inl e \<Rightarrow> Inl e
                 | Inr start \<Rightarrow>
                     (case format_bound fmt (last_of validDates) of
                        Inl e \<Rightarrow> Inl e
                      | Inr end_date \<Rightarrow>
                          Inr \<lparr>totalTweets = length tws,
                               directTweets =
                                 length (filter (\<lambda>t. \<not> tw_isReply t \<and> \<not> tw_isRetweet t) tws),
                               replies = length (filter tw_isReply tws),
                               retweets = length (filter tw_isRetweet tws),
                               engagement =
                                 \<lparr>totalLikes = sum_list (map tw_likes tweetsForEngagement),
                                  totalRetweetCount = sum_list (map tw_retweetCount tweetsForEngagement),
                                  totalReplies = sum_list (map tw_replies tweetsForEngagement),
                                  averageLikes =
                                    toFixed2_div (sum_list (map tw_likes tweetsForEngagement))
                                      (length tweetsForEngagement),
                                  topTweets = tops\<rparr>,
                               timeRange = \<lparr>tr_start = start, tr_end = end_date\<rparr>,
                               contentTypes =
                                 \<lparr>withImages = length (filter (\<lambda>t. 0 < length (tw_photos t)) tws),
                                  withVideos = length (filter (\<lambda>t. 0 < length (tw_videos t)) tws),
                                  withLinks = length (filter (\<lambda>t. 0 < length (tw_urls t)) tws),
                                  textOnly =
                                    length (filter (\<lambda>t. length (tw_photos t) = 0 \<and>
                                                         length (tw_videos t) = 0 \<and>
                                                         length (tw_urls t) = 0) tws)\<rparr>\<rparr>))))"

section \<open>Vocabulary of the properties\<close>

text \<open>The millisecond timestamp of the normalized record, \<open>None\<close> when the record is rejected.\<close>

definition timestampMillis :: "(int \<Rightarrow> string) \<Rightarrow> string \<Rightarrow> stats \<Rightarrow> raw_tweet \<Rightarrow> int option" where
  "timestampMillis toISO u st r =
     (case snd (processTweetData toISO u st (Some r)) of None \<Rightarrow> None | Some v \<Rightarrow> tw_timestamp v)"


text \<open>The stored timestamp is \<open>null\<close> or within the range of \<open>Date\<close>, as it is for every tweet
  that \<open>processTweetData\<close> returns.\<close>

definition valid_date :: "tweet \<Rightarrow> bool" where
  "valid_date t = (case tw_timestamp t of None \<Rightarrow> True | Some v \<Rightarrow> \<bar>v\<bar> \<le> 8640000000000000)"

section \<open>Concrete inputs\<close>

text \<open>Stand-ins for the two date formatters; the claims do not depend on the text they print.\<close>

definition example_toISO :: "int \<Rightarrow> string" where
  "example_toISO ms = ''iso''"

definition example_fmt :: "int \<Rightarrow> string" where
  "example_fmt ms = ''date''"

definition example_stats :: stats where
  "example_stats =
     \<lparr>requestCount = 0, rateLimitHits = 0, retriesCount = 0, uniqueTweets = 0,
      fallbackCount = 0, oldestTweetDate = None, newestTweetDate = None, fallbackUsed = False\<rparr>"

definition example_config :: twitter_config where
  "example_config = \<lparr>minDelayBetweenRequests = 1000, maxDelayBetweenRequests = 3000\<rparr>"

text \<open>A raw record with an identifier, a text and optional timestamp fields only.\<close>

definition example_raw :: "string option \<Rightarrow> jsnum option \<Rightarrow> jsnum option \<Rightarrow> raw_tweet" where
  "example_raw ident ts parsed =
     \<lparr>raw_id = ident, raw_text = Some ''hello world'', raw_username = None,
      raw_timestamp = ts, raw_timeParsed = parsed, raw_isReply = None, raw_isRetweet = None,
      raw_likes = None, raw_retweets = None, raw_replies = None, raw_photos = None,
      raw_videos = None, raw_urls = None, raw_permanentUrl = None, raw_quotedStatusId = None,
      raw_inReplyToStatusId = None, raw_hashtags = None\<rparr>"

text \<open>A stored tweet given by its id, text, retweet flag, likes, retweet count and timestamp.\<close>

definition example_tweet :: "string \<Rightarrow> string \<Rightarrow> bool \<Rightarrow> int \<Rightarrow> int \<Rightarrow> int \<Rightarrow> tweet" where
  "example_tweet ident txt rt likes rts ts =
     \<lparr>tw_id = ident, tw_text = Some txt, tw_username = ''alice'', tw_timestamp = Some ts,
      tw_createdAt = ''iso'', tw_isReply = False, tw_isRetweet = rt, tw_likes = likes,
      tw_retweetCount = rts, tw_replies = 0, tw_photos = [], tw_videos = [], tw_urls = [],
      tw_permanentUrl = None, tw_quotedStatusId = None, tw_inReplyToStatusId = None,
      tw_hashtags = []\<rparr>"

definition no_dates :: cli_options where
  "no_dates = \<lparr>startDate = None, endDate = None\<rparr>"

text \<open>The search capability fetches the results page by page and yields the records of
  each page (batch) in turn.\<close>

definition sequence_of_pages :: "raw_tweet list list \<Rightarrow> seq_event list" where
  "sequence_of_pages pages = map (\<lambda>r. Yield (Some r)) (concat pages)"

text \<open>A first page with record 1, three pages that repeat record 1 and so bring nothing
  new, and a fifth page with record 2.\<close>

definition stagnant_pages :: "raw_tweet list list" where
  "stagnant_pages =
     [[example_raw (Some ''1'') (Some (Num 1700000000)) None],
      [example_raw (Some ''1'') (Some (Num 1700000000)) None],
      [example_raw (Some ''1'') (Some (Num 1700000000)) None],
      [example_raw (Some ''1'') (Some (Num 1700000000)) None],
      [example_raw (Some ''2'') (Some (Num 1700000001)) None]]"

text \<open>The ids of the tweets a collection returned.\<close>

definition collected_ids :: "error + (stats \<times> tweet list) \<Rightarrow> string list" where
  "collected_ids res = (case res of Inl e \<Rightarrow> [] | Inr (st, tws) \<Rightarrow> map tw_id tws)"

text \<open>Two scroll passes that both show the post with id 1.\<close>

definition example_post :: scraped where
  "example_post =
     \<lparr>sc_id = Some ''1'', sc_text = ''hello'', sc_timestamp = Some ''2024-01-01T00:00:00.000Z'',
      sc_metrics = [''3'', ''5'']\<rparr>"

definition same_post_twice :: "cycle list" where
  "same_post_twice =
     [\<lparr>now = 1000, visible = [Some example_post]\<rparr>, \<lparr>now = 3000, visible = [Some example_post]\<rparr>]"

text \<open>Two accounts whose datasets both hold a tweet with id 1; account b also holds a retweet.\<close>

definition example_load :: "string \<Rightarrow> tweet list" where
  "example_load account =
     (if account = ''a'' then [example_tweet ''1'' ''from a'' False 5 1 1700000000000]
      else if account = ''b''
        then [example_tweet ''1'' ''from b'' False 7 0 1700000000000,
              example_tweet ''9'' ''RT hi'' True 2 0 1700000001000]
      else [])"

definition example_latest :: "string \<Rightarrow> string option" where
  "example_latest account = Some ''2024-01-01''"

definition default_options :: merge_options where
  "default_options = \<lparr>opt_tweetsPerAccount = None, opt_filterRetweets = None, opt_sortBy = None\<rparr>"

definition exclude_answers :: merge_answers where
  "exclude_answers =
     \<lparr>ans_tweetsPerAccount = 50, ans_excludeRetweets = True,
      ans_rankingMethod = ''Total engagement (likes + retweets)''\<rparr>"

text \<open>The texts of the tweets a merge returned.\<close>

definition merged_texts :: "error + (tweet list \<times> merged_stats) \<Rightarrow> string option list" where
  "merged_texts res = (case res of Inl e \<Rightarrow> [] | Inr (tws, st) \<Rightarrow> map tw_text tws)"

definition merged_retweet_flags :: "error + (tweet list \<times> merged_stats) \<Rightarrow> bool list" where
  "merged_retweet_flags res = (case res of Inl e \<Rightarrow> [] | Inr (tws, st) \<Rightarrow> map tw_isRetweet tws)"


section \<open>The record normalizer and the primary collector\<close>







lemma timestampMillis_SomeD:
  assumes "timestampMillis toISO u st r = Some m"
  shows "0 < m \<and> m \<le> 8640000000000000 \<and> truthy_str (raw_id r) \<and>
         (\<exists>t. resolve_timestamp r = Some (Num t) \<and> t \<noteq> 0 \<and> scale_timestamp (Num t) = Num m)"
  using assms
  by (auto simp: timestampMillis_def processTweetData_def Let_def truthy_num_def truthy_str_def
                 new_Date_def
           split: option.splits jsnum.splits if_splits)

text \<open>
  Claim C2, as amended. When a record is accepted with millisecond timestamp \<open>m\<close>, normalizing
  it again with \<open>m\<close> as its timestamp gives \<open>m\<close> when \<open>m\<close> is at least \<open>10^12\<close>, and
  \<open>1000 * m\<close> otherwise: the scaling is applied once exactly for the results from \<open>10^12\<close>
  on, which every raw timestamp of at least \<open>10^9\<close> reaches.
\<close>

theorem renormalize_timestamp:
  assumes "timestampMillis toISO u st r = Some m"
  shows "timestampMillis toISO u st' (r\<lparr>raw_timestamp := Some (Num m)\<rparr>) =
           Some (if 10 ^ 12 \<le> m then m else m * 1000) \<and>
         (\<forall>t. raw_timestamp r = Some (Num t) \<and> 10 ^ 9 \<le> t \<longrightarrow> 10 ^ 12 \<le> m)"
proof -
  note d = timestampMillis_SomeD[OF assms]
  have a: "timestampMillis toISO u st' (r\<lparr>raw_timestamp := Some (Num m)\<rparr>) =
           Some (if 10 ^ 12 \<le> m then m else m * 1000)"
    using d
    by (auto simp: timestampMillis_def processTweetData_def Let_def truthy_num_def truthy_str_def
                   new_Date_def resolve_timestamp_def scale_timestamp_def
             split: option.splits jsnum.splits if_splits)
  have b: "10 ^ 12 \<le> m" if "raw_timestamp r = Some (Num t)" "10 ^ 9 \<le> t" for t
    using d that
    by (auto simp: resolve_timestamp_def scale_timestamp_def truthy_num_def split: if_splits)
  show ?thesis using a b by blast
qed

theorem renormalize_timestamp_witness:
  "timestampMillis example_toISO ''alice'' example_stats
     (example_raw (Some ''1'') (Some (Num 1700000000)) None) = Some 1700000000000 \<and>
   timestampMillis example_toISO ''alice'' example_stats
     (example_raw (Some ''1'') (Some (Num 1700000000000)) None) = Some 1700000000000"
proof -
  have h: "timestampMillis example_toISO ''alice'' example_stats
     (example_raw (Some ''1'') (Some (Num 1700000000)) None) = Some 1700000000000"
    by code_simp
  have u: "(example_raw (Some ''1'') (Some (Num 1700000000)) None)
              \<lparr>raw_timestamp := Some (Num 1700000000000)\<rparr>
            = example_raw (Some ''1'') (Some (Num 1700000000000)) None"
    by (simp add: example_raw_def)
  show ?thesis
    using h conjunct1 [OF renormalize_timestamp [OF h, of example_stats]] by (simp add: u)
qed

text \<open>
  Claim C2 as stated fails: the raw timestamp \<open>1000\<close> is normalized to \<open>1000000\<close>
  milliseconds, and normalizing \<open>1000000\<close> does not give \<open>1000000\<close> again but scales it once
  more.
\<close>

theorem renormalize_timestamp_counterexample:
  "timestampMillis example_toISO ''alice'' example_stats
     (example_raw (Some ''1'') (Some (Num 1000)) None) = Some 1000000 \<and>
   timestampMillis example_toISO ''alice'' example_stats
     (example_raw (Some ''1'') (Some (Num 1000000)) None) \<noteq> Some 1000000 \<and>
   timestampMillis example_toISO ''alice'' example_stats
     (example_raw (Some ''1'') (Some (Num 1000000)) None) = Some 1000000000"
  by code_simp

text \<open>
  Claim C4, evaluated on the code. The sequence delivers a page with record 1, three
  consecutive pages that hold nothing but record 1 again (no newly accepted record), and a
  fifth page with record 2. The loop has no stagnation counter and no count of collected
  records: it reads the sequence to its end and returns both tweets.
\<close>

theorem collectTweets_ignores_stagnation:
  "collected_ids
     (collectTweets example_toISO ''alice'' no_dates (Some 5) example_stats
        (sequence_of_pages stagnant_pages))
     = [''1'', ''2'']"
  by code_simp

section \<open>The rate-limit controller\<close>

text \<open>
  Claim C3. For an attempt number \<open>n \<ge> 1\<close> and a value \<open>rnd\<close> of \<open>Math.random()\<close> in
  \<open>[0, 1)\<close>, the delay computed by \<open>handleRateLimit\<close> is
  \<open>min (60000 * 2^(n-1) * (1 + j)) 900000\<close> for a jitter factor \<open>j\<close> between \<open>0\<close> and
  \<open>0.1\<close>; the rate-limit-hit counter grows by exactly one; and from attempt 5 on the delay
  is the cap of 15 minutes.
\<close>

theorem handleRateLimit_delay:
  assumes "1 \<le> n" and "0 \<le> rnd" and "rnd < 1"
  shows "(\<exists>j. 0 \<le> j \<and> j \<le> 1 / 10 \<and>
            fst (snd (handleRateLimit cfg st n rnd rs)) =
              min (60000 * 2 ^ nat (n - 1) * (1 + j)) 900000) \<and>
         rateLimitHits (fst (handleRateLimit cfg st n rnd rs)) = rateLimitHits st + 1 \<and>
         (5 \<le> n \<longrightarrow> fst (snd (handleRateLimit cfg st n rnd rs)) = 900000)"
proof -
  have p: "power_int (2::real) (n - 1) = 2 ^ nat (n - 1)"
    using assms(1) by (simp add: power_int_def)
  have d: "fst (snd (handleRateLimit cfg st n rnd rs)) =
             min (60000 * 2 ^ nat (n - 1) + rnd * 0.1 * (60000 * 2 ^ nat (n - 1))) 900000"
    by (simp add: handleRateLimit_def Let_def p)
  have e: "60000 * 2 ^ nat (n - 1) + rnd * 0.1 * (60000 * 2 ^ nat (n - 1))
             = 60000 * 2 ^ nat (n - 1) * (1 + rnd * (1 / 10))"
    by (simp add: algebra_simps)
  have j: "0 \<le> rnd * (1 / 10) \<and> rnd * (1 / 10) \<le> 1 / 10"
    using assms(2,3) by simp
  have c1: "\<exists>j. 0 \<le> j \<and> j \<le> 1 / 10 \<and>
            fst (snd (handleRateLimit cfg st n rnd rs)) =
              min (60000 * 2 ^ nat (n - 1) * (1 + j)) 900000"
    using d e j by metis
  have c2: "rateLimitHits (fst (handleRateLimit cfg st n rnd rs)) = rateLimitHits st + 1"
    by (simp add: handleRateLimit_def Let_def)
  have c3: "fst (snd (handleRateLimit cfg st n rnd rs)) = 900000" if "5 \<le> n"
  proof -
    have "4 \<le> nat (n - 1)" using that by simp
    then have "(2::real) ^ 4 \<le> 2 ^ nat (n - 1)"
      by (intro power_increasing) simp_all
    then have "(16::real) \<le> 2 ^ nat (n - 1)" by simp
    moreover have "0 \<le> rnd * 0.1 * (60000 * 2 ^ nat (n - 1))"
      using assms(2) by simp
    ultimately have "900000 \<le> 60000 * 2 ^ nat (n - 1) + rnd * 0.1 * (60000 * 2 ^ nat (n - 1))"
      by linarith
    then show ?thesis using d by simp
  qed
  show ?thesis using c1 c2 c3 by blast
qed

theorem handleRateLimit_delay_witness:
  "(1::int) \<le> 5 \<and> (0::real) \<le> 1 / 2 \<and> (1 / 2 :: real) < 1 \<and>
   fst (snd (handleRateLimit example_config example_stats 5 (1 / 2) [])) = 900000 \<and>
   rateLimitHits (fst (handleRateLimit example_config example_stats 5 (1 / 2) [])) = 1"
  using handleRateLimit_delay [of 5 "1 / 2" example_config example_stats "[]"]
  by (simp add: example_stats_def)

section \<open>The fallback collector\<close>

text \<open>
  Claim C5, evaluated on the code. Two scroll passes both show the post with id 1. The
  \<open>Set\<close> holds objects while membership is asked of the id string, so the test never
  finds the post and the \<open>Set\<close> ends with two records of id 1.
\<close>

theorem fallback_keeps_duplicate_ids:
  "map sc_id (scraped_of (tweets (fallbackTask example_stats 0 1800000 same_post_twice)))
     = [Some ''1'', Some ''1'']"
  by code_simp

section \<open>The merge engine\<close>

lemma set_insort_cmp: "set (insort_cmp cmp x ys) = insert x (set ys)"
  by (induction ys) auto

lemma set_js_sort: "set (js_sort cmp xs) = set xs"
  by (induction xs) (auto simp: js_sort_def set_insort_cmp)



lemma js_sort_Nil: "js_sort cmp [] = []"
  by (simp add: js_sort_def)







text \<open>With \<open>filterRetweets\<close> set, \<open>createMergedCharacter\<close> itself selects no retweet.\<close>

lemma select_top_no_retweets:
  "filterRetweets options \<Longrightarrow> t \<in> set (select_top options tws) \<Longrightarrow> \<not> tw_isRetweet t"
  by (auto simp: select_top_def Let_def filter_tweets_def set_js_sort dest!: in_set_takeD)






text \<open>
  Claim C6, evaluated on the code. Accounts a and b, processed in this order, both hold a
  tweet with id 1. \<open>createMergedCharacter\<close> calls \<open>mergedTweets.set\<close> without asking
  \<open>has\<close> first (as \<open>mergeCharacters\<close> does), so the tweet of the later account b replaces the
  one of account a.
\<close>

theorem createMergedCharacter_last_occurrence_wins:
  "merged_texts (createMergedCharacter example_load example_latest [''a'', ''b''] default_options)
     = [Some ''from b'']"
  by code_simp



text \<open>
  Claim C9, evaluated on the code. The user answers that retweets are to be excluded. \<open>main\<close>
  passes \<open>filterRetweets: !options.excludeRetweets\<close>, that is \<open>false\<close>, so
  \<open>createMergedCharacter\<close> does not filter and the retweet of account b is among the selected
  tweets.
\<close>

theorem main_merge_keeps_retweets:
  "merged_retweet_flags
     (main_merge example_load example_latest (Some ''alfacito'') ''a'' ''b'' exclude_answers)
     = [False, True]"
  by code_simp

section \<open>The analytics snapshot\<close>

text \<open>
  Claim C8. For the empty tweet list \<open>generateAnalytics\<close> returns, without raising, the
  zero snapshot: \<open>totalTweets = 0\<close>, \<open>averageLikes = "0.00"\<close> and a \<open>timeRange\<close> of \<open>"N/A"\<close> to
  \<open>"N/A"\<close>.
\<close>

theorem generateAnalytics_empty:
  "generateAnalytics fmt [] =
     Inr \<lparr>totalTweets = 0, directTweets = 0, replies = 0, retweets = 0,
          engagement = \<lparr>totalLikes = 0, totalRetweetCount = 0, totalReplies = 0,
                         averageLikes = ''0.00'', topTweets = []\<rparr>,
          timeRange = \<lparr>tr_start = ''N/A'', tr_end = ''N/A''\<rparr>,
          contentTypes = \<lparr>withImages = 0, withVideos = 0, withLinks = 0, textOnly = 0\<rparr>\<rparr>"
  by (simp add: generateAnalytics_def)

lemma first_of_in: "first_of xs = Some x \<Longrightarrow> x \<in> set xs"
  by (auto simp: first_of_def split: list.splits)

lemma last_of_in: "last_of xs = Some x \<Longrightarrow> x \<in> set xs"
  by (auto simp: last_of_def split: list.splits)

lemma format_bound_ok:
  assumes "\<And>v. d = Some v \<Longrightarrow> \<bar>v\<bar> \<le> 8640000000000000"
  shows "\<exists>s. format_bound fmt d = Inr s"
  using assms by (auto simp: format_bound_def new_Date_def split: option.splits)

lemma all_retweets_filter:
  "\<forall>t\<in>set tws. tw_isRetweet t \<Longrightarrow> filter (\<lambda>t. \<not> tw_isRetweet t) tws = []"
  by (induction tws) auto

lemma valid_dates_in:
  assumes "\<forall>t\<in>set tws. valid_date t"
      and "v \<in> set (js_sort cmp (concat (map (\<lambda>t. case tw_timestamp t of None \<Rightarrow> [] | Some v \<Rightarrow> [v])
                 (filter (\<lambda>t. tw_timestamp t \<noteq> None) tws))))"
  shows "\<bar>v\<bar> \<le> 8640000000000000"
  using assms by (auto simp: set_js_sort valid_date_def split: option.splits)

text \<open>On a non-empty list of retweets only, the snapshot depends on the two date bounds
  alone: it raises what they raise, or it is returned with \<open>averageLikes = "NaN"\<close>.\<close>

lemma generateAnalytics_all_retweets:
  assumes "tws \<noteq> []" and "\<forall>t\<in>set tws. tw_isRetweet t"
      and "format_bound fmt (first_of (js_sort (\<lambda>a b. Num (a - b))
             (concat (map (\<lambda>t. case tw_timestamp t of None \<Rightarrow> [] | Some v \<Rightarrow> [v])
                 (filter (\<lambda>t. tw_timestamp t \<noteq> None) tws))))) = r1"
      and "format_bound fmt (last_of (js_sort (\<lambda>a b. Num (a - b))
             (concat (map (\<lambda>t. case tw_timestamp t of None \<Rightarrow> [] | Some v \<Rightarrow> [v])
                 (filter (\<lambda>t. tw_timestamp t \<noteq> None) tws))))) = r2"
  shows "(\<exists>e. generateAnalytics fmt tws = Inl e \<and> (r1 = Inl e \<or> r2 = Inl e)) \<or>
         (\<exists>a s e. generateAnalytics fmt tws = Inr a \<and> r1 = Inr s \<and> r2 = Inr e \<and>
                  averageLikes (engagement a) = ''NaN'')"
proof -
  have f: "filter (\<lambda>t. \<not> tw_isRetweet t) tws = []"
    using assms(2) by (rule all_retweets_filter)
  show ?thesis
  proof (cases r1)
    case (Inl e)
    then show ?thesis
      using assms(1,3) by (simp add: generateAnalytics_def Let_def f js_sort_Nil)
  next
    case r1: (Inr s)
    show ?thesis
    proof (cases r2)
      case (Inl e)
      then show ?thesis
        using assms(1,3,4) r1 by (simp add: generateAnalytics_def Let_def f js_sort_Nil)
    next
      case (Inr e)
      then show ?thesis
        using assms(1,3,4) r1
        by (simp add: generateAnalytics_def Let_def f js_sort_Nil toFixed2_div_def)
    qed
  qed
qed

text \<open>
  Claim C10. For a non-empty tweet list in which every tweet is a retweet, every snapshot
  that \<open>generateAnalytics\<close> returns has \<open>averageLikes = "NaN"\<close> (the total \<open>0\<close> divided by the
  count \<open>0\<close> of non-retweets), not \<open>"0.00"\<close>; and a snapshot is returned whenever the stored
  timestamps are valid dates.
\<close>

theorem all_retweets_average_NaN:
  assumes "tws \<noteq> []" and "\<forall>t\<in>set tws. tw_isRetweet t"
  shows "(\<forall>a. generateAnalytics fmt tws = Inr a \<longrightarrow> averageLikes (engagement a) = ''NaN'') \<and>
         ((\<forall>t\<in>set tws. valid_date t) \<longrightarrow> (\<exists>a. generateAnalytics fmt tws = Inr a))"
proof (intro conjI allI impI)
  fix a assume "generateAnalytics fmt tws = Inr a"
  then show "averageLikes (engagement a) = ''NaN''"
    using generateAnalytics_all_retweets[OF assms refl refl, of fmt] by auto
next
  let ?vd = "js_sort (\<lambda>a b. Num (a - b))
               (concat (map (\<lambda>t. case tw_timestamp t of None \<Rightarrow> [] | Some v \<Rightarrow> [v])
                 (filter (\<lambda>t. tw_timestamp t \<noteq> None) tws)))"
  assume v: "\<forall>t\<in>set tws. valid_date t"
  have "\<And>x. first_of ?vd = Some x \<Longrightarrow> \<bar>x\<bar> \<le> 8640000000000000"
    using valid_dates_in[OF v] first_of_in by fast
  then obtain s where s: "format_bound fmt (first_of ?vd) = Inr s"
    using format_bound_ok[of "first_of ?vd" fmt] by fast
  have "\<And>x. last_of ?vd = Some x \<Longrightarrow> \<bar>x\<bar> \<le> 8640000000000000"
    using valid_dates_in[OF v] last_of_in by fast
  then obtain e where e: "format_bound fmt (last_of ?vd) = Inr e"
    using format_bound_ok[of "last_of ?vd" fmt] by fast
  show "\<exists>a. generateAnalytics fmt tws = Inr a"
    using generateAnalytics_all_retweets[OF assms s e] by auto
qed

theorem all_retweets_average_NaN_witness:
  "[example_tweet ''9'' ''RT hi'' True 2 0 1700000001000] \<noteq> [] \<and>
   tw_isRetweet (example_tweet ''9'' ''RT hi'' True 2 0 1700000001000) \<and>
   valid_date (example_tweet ''9'' ''RT hi'' True 2 0 1700000001000) \<and>
   (\<exists>a. generateAnalytics example_fmt [example_tweet ''9'' ''RT hi'' True 2 0 1700000001000] = Inr a \<and>
        averageLikes (engagement a) = ''NaN'')"
proof -
  have r: "tw_isRetweet (example_tweet ''9'' ''RT hi'' True 2 0 1700000001000)"
    by (simp add: example_tweet_def)
  have v: "valid_date (example_tweet ''9'' ''RT hi'' True 2 0 1700000001000)"
    by (simp add: example_tweet_def valid_date_def)
  have n: "[example_tweet ''9'' ''RT hi'' True 2 0 1700000001000] \<noteq> []" by simp
  have a: "\<forall>t\<in>set [example_tweet ''9'' ''RT hi'' True 2 0 1700000001000]. tw_isRetweet t"
    using r by simp
  note t = all_retweets_average_NaN [OF n a, of example_fmt]
  show ?thesis using r v t by auto
qed

end
